theory Spec2Isabelle
  imports Complex_Main
begin

section \<open>ceph-deploy: OSD provisioning and inventory (ceph\_deploy/osd.py)\<close>

text \<open>
  A shallow embedding of \<^verbatim>\<open>ceph_deploy/osd.py\<close>. Python strings are \<open>string\<close>,
  \<open>None\<close>-able values are options, a raised exception is the \<open>Inl\<close> of a sum, and
  everything the code does to the outside (log lines, remote calls, commands) is
  appended to an explicit trace of events.
\<close>

subsection \<open>Exceptions\<close>

text \<open>
  The Python exceptions the module meets. \<open>ExcError cls msg\<close> is an exception of the
  package's own \<^verbatim>\<open>ceph_deploy.exc\<close> module (\<^verbatim>\<open>NeedDiskError\<close>, \<^verbatim>\<open>GenericError\<close>, ...),
  named by its class.
\<close>

datatype exn =
    RuntimeError string
  | NameError string
  | TypeError string
  | ValueError string
  | IndexError string
  | KeyError string
  | AttributeError string
  | ExcError string string

subsection \<open>The mount point of an OSD in a disk listing\<close>

text \<open>
  The delimiter class of the pattern \<^verbatim>\<open>[,\s]+\<close>: a comma or one of the ASCII white
  space characters space, \<^verbatim>\<open>\t \n \v \f \r\<close>.
\<close>

definition is_delim :: "char \<Rightarrow> bool" where
  "is_delim c = (c = CHR '','' \<or> c = CHR '' '' \<or> c = CHR 0x09 \<or> c = CHR 0x0A
     \<or> c = CHR 0x0B \<or> c = CHR 0x0C \<or> c = CHR 0x0D)"

text \<open>
  \<^verbatim>\<open>re.split(r'[,\s]+', line)\<close>: the fields between maximal runs of delimiters. A
  leading or trailing run leaves an empty first or last field, and the empty line
  gives the single empty field. \<open>split_go in_sep cur s\<close> scans \<open>s\<close> with the field
  \<open>cur\<close> read so far; \<open>in_sep\<close> says that the scan is inside a run of delimiters.
\<close>

fun split_go :: "bool \<Rightarrow> string \<Rightarrow> string \<Rightarrow> string list" where
  "split_go in_sep cur [] = [cur]"
| "split_go in_sep cur (c # cs) =
     (if is_delim c then
        (if in_sep then split_go True cur cs else cur # split_go True [] cs)
      else split_go False (cur @ [c]) cs)"

definition re_split :: "string \<Rightarrow> string list" where
  "re_split line = split_go False [] line"

text \<open>
  The inner loop of \<^verbatim>\<open>get_osd_mount_point\<close>, over the parts still to visit:
  \<^verbatim>\<open>
  for part in line_parts:
      mount_point = line_parts[1]
      if osd_name == part:
          return mount_point
  \<close>
  \<^verbatim>\<open>line_parts[1]\<close> is read at every part, before the comparison, and raises
  IndexError on a line of fewer than two fields. \<open>Inr None\<close> is the loop ending
  without a return.
\<close>

fun scan_parts :: "string list \<Rightarrow> string list \<Rightarrow> string \<Rightarrow> exn + string option" where
  "scan_parts line_parts [] osd_name = Inr None"
| "scan_parts line_parts (part # rest) osd_name =
     (if length line_parts < 2 then Inl (IndexError ''list index out of range'')
      else if osd_name = part then Inr (Some (line_parts ! 1))
      else scan_parts line_parts rest osd_name)"

text \<open>
  \<^verbatim>\<open>get_osd_mount_point(output, osd_name)\<close>: the outer loop over the lines. Falling
  off the end returns Python's \<open>None\<close>.
\<close>

fun get_osd_mount_point :: "string list \<Rightarrow> string \<Rightarrow> exn + string option" where
  "get_osd_mount_point [] osd_name = Inr None"
| "get_osd_mount_point (line # output) osd_name =
     (let line_parts = re_split line in
      case scan_parts line_parts line_parts osd_name of
        Inl e \<Rightarrow> Inl e
      | Inr (Some mount_point) \<Rightarrow> Inr (Some mount_point)
      | Inr None \<Rightarrow> get_osd_mount_point output osd_name)"

subsection \<open>JSON values and Python's built-in conversions\<close>

text \<open>
  What \<^verbatim>\<open>json.loads\<close> returns. A Python dict keeps its keys in insertion order and is
  an association list here; a float is the rational number it stands for (the
  non-finite floats are not represented).
\<close>

datatype json =
    JNull
  | JBool bool
  | JInt int
  | JFloat rat
  | JStr string
  | JList "json list"
  | JDict "(string \<times> json) list"

type_synonym dict = "(string \<times> json) list"

text \<open>\<^verbatim>\<open>d.get(k, default)\<close> and \<^verbatim>\<open>d[k] = v\<close> (a new key goes to the end).\<close>

definition dict_get :: "('k \<times> 'v) list \<Rightarrow> 'k \<Rightarrow> 'v \<Rightarrow> 'v" where
  "dict_get d k dflt = (case map_of d k of None \<Rightarrow> dflt | Some v \<Rightarrow> v)"

fun dict_set :: "'k \<Rightarrow> 'v \<Rightarrow> ('k \<times> 'v) list \<Rightarrow> ('k \<times> 'v) list" where
  "dict_set k v [] = [(k, v)]"
| "dict_set k v (p # d) = (if fst p = k then (k, v) # d else p # dict_set k v d)"

text \<open>The truth value Python gives a value in \<^verbatim>\<open>if value:\<close>.\<close>

fun truthy :: "json \<Rightarrow> bool" where
  "truthy JNull = False"
| "truthy (JBool b) = b"
| "truthy (JInt i) = (i \<noteq> 0)"
| "truthy (JFloat r) = (r \<noteq> 0)"
| "truthy (JStr s) = (s \<noteq> [])"
| "truthy (JList xs) = (xs \<noteq> [])"
| "truthy (JDict d) = (d \<noteq> [])"

text \<open>\<^verbatim>\<open>not s\<close> for a value that is \<open>None\<close> or a string.\<close>

definition falsy :: "string option \<Rightarrow> bool" where
  "falsy s = (s = None \<or> s = Some [])"

text \<open>\<^verbatim>\<open>'%s' % s\<close> for a value that is \<open>None\<close> or a string.\<close>

definition str_opt :: "string option \<Rightarrow> string" where
  "str_opt s = (case s of None \<Rightarrow> ''None'' | Some x \<Rightarrow> x)"

text \<open>\<^verbatim>\<open>'%d' % n\<close>: the decimal digits, with a minus sign for a negative number.\<close>

function str_of_nat :: "nat \<Rightarrow> string" where
  "str_of_nat n =
     (if n < 10 then [''0123456789'' ! n]
      else str_of_nat (n div 10) @ [''0123456789'' ! (n mod 10)])"
  by pat_completeness auto
termination
  by (relation "measure id") auto

declare str_of_nat.simps [simp del]

definition str_of_int :: "int \<Rightarrow> string" where
  "str_of_int i = (if i < 0 then CHR ''-'' # str_of_nat (nat (- i)) else str_of_nat (nat i))"

text \<open>
  \<^verbatim>\<open>int(v)\<close> on a JSON value. How Python reads an integer out of a string is the
  interpreter's business and is the parameter \<open>int_of_str\<close> (\<open>None\<close>: ValueError).
  A float is truncated towards zero; \<open>None\<close>, a list and a dict raise TypeError.
\<close>

fun py_int :: "(string \<Rightarrow> int option) \<Rightarrow> json \<Rightarrow> exn + int" where
  "py_int int_of_str (JInt i) = Inr i"
| "py_int int_of_str (JBool b) = Inr (if b then 1 else 0)"
| "py_int int_of_str (JFloat r) = Inr (if 0 \<le> r then \<lfloor>r\<rfloor> else \<lceil>r\<rceil>)"
| "py_int int_of_str (JStr s) =
     (case int_of_str s of
        None \<Rightarrow> Inl (ValueError ''invalid literal for int() with base 10'')
      | Some i \<Rightarrow> Inr i)"
| "py_int int_of_str v = Inl (TypeError ''int() argument must be a string or a number'')"

subsection \<open>Events, connections and the environment\<close>

text \<open>
  A logger is the module's \<^verbatim>\<open>LOG\<close> or the \<^verbatim>\<open>conn.logger\<close> of the connection to a host.
\<close>

datatype logger = ModuleLOG | ConnLogger string

datatype level = DEBUG | INFO | WARNING | ERROR

text \<open>
  What a run does to the outside, in order: log lines, sessions opened by
  \<^verbatim>\<open>hosts.get\<close> and closed by \<^verbatim>\<open>conn.exit()\<close>, files written on a host, commands
  handed to \<^verbatim>\<open>remoto.process.run\<close> and \<^verbatim>\<open>remoto.process.check\<close> (host and argument
  list), \<^verbatim>\<open>time.sleep\<close>, and the records handed to \<^verbatim>\<open>print_osd\<close> (host name, OSD path,
  the tree's blob, the metadata).
\<close>

datatype event =
    Log logger level string
  | HostsGet "string option"
  | ConnExit string
  | WriteConf string string string bool
  | WriteKeyring string string string
  | ProcessRun string "string list"
  | ProcessCheck string "string list"
  | Sleep nat
  | PrintOsd string string dict "(string \<times> string) list"

text \<open>
  A connection to a host, as far as this module uses one. None of the functions
  behind it is in this file of the repository, so a connection is the host's name and
  the answers the host gives:
  \<^item> \<open>executable_path\<close>: \<^verbatim>\<open>system.executable_path(conn, name)\<close>, a path or an exception;
  \<^item> \<open>path_exists0\<close>: \<^verbatim>\<open>conn.remote_module.path_exists\<close> at the start of the run;
  \<^item> \<open>process_run\<close>: the exception \<^verbatim>\<open>remoto.process.run\<close> raises on an argument list,
    if any;
  \<^item> \<open>process_check\<close>: what \<^verbatim>\<open>remoto.process.check\<close> returns, the triple of stdout
    lines, stderr lines and exit code, or \<open>None\<close> when the other end timed out, or
    the exception it raises;
  \<^item> \<open>write_conf\<close>: the exception \<^verbatim>\<open>conn.remote_module.write_conf\<close> raises, if any;
  \<^item> \<open>listdir\<close>, \<open>readline\<close>, \<open>get_realpath\<close>: the helpers of \<^verbatim>\<open>conn.remote_module\<close>.
\<close>

record conn =
  conn_hostname :: string
  executable_path :: "string \<Rightarrow> exn + string"
  path_exists0 :: "string \<Rightarrow> bool"
  process_run :: "string list \<Rightarrow> exn option"
  process_check :: "string list \<Rightarrow> exn + (string list \<times> string list \<times> int) option"
  write_conf :: "string \<Rightarrow> string \<Rightarrow> bool \<Rightarrow> exn option"
  listdir :: "string \<Rightarrow> string list"
  readline :: "string \<Rightarrow> string"
  get_realpath :: "string \<Rightarrow> string"

text \<open>What \<^verbatim>\<open>hosts.get\<close> returns: the distribution's names and the connection.\<close>

record distro =
  distro_name :: string
  distro_release :: string
  distro_codename :: string
  distro_conn :: conn

text \<open>
  The rest of the world the module reads, again as parameters:
  \<^item> \<open>open_rb\<close>: the content of a local file, \<open>None\<close> when \<^verbatim>\<open>open(path, 'rb')\<close> raises
    IOError;
  \<^item> \<open>hosts_get\<close>: \<^verbatim>\<open>hosts.get(hostname, ...)\<close>, a distro or an exception;
  \<^item> \<open>load_raw\<close>: \<^verbatim>\<open>conf.ceph.load_raw(args)\<close>;
  \<^item> \<open>json_loads\<close>: \<^verbatim>\<open>json.loads\<close> of the decoded output, \<open>None\<close> when decoding or
    parsing raises ValueError;
  \<^item> \<open>int_of_str\<close>: \<^verbatim>\<open>int\<close> on a string;
  \<^item> \<open>exc_runtime\<close>: whether a class of \<^verbatim>\<open>ceph_deploy.exc\<close> derives from RuntimeError;
  \<^item> \<open>get_mon_initial_members\<close>: \<^verbatim>\<open>mon.get_mon_initial_members(args, ...)\<close>;
  \<^item> \<open>constants_osd_path\<close>: \<^verbatim>\<open>constants.osd_path\<close>.
\<close>

record env =
  open_rb :: "string \<Rightarrow> string option"
  hosts_get :: "string option \<Rightarrow> exn + distro"
  load_raw :: "exn + string"
  json_loads :: "string \<Rightarrow> json option"
  int_of_str :: "string \<Rightarrow> int option"
  exc_runtime :: "string \<Rightarrow> bool"
  get_mon_initial_members :: "exn + string list"
  constants_osd_path :: string

text \<open>The attributes of the parsed command line that the module reads.\<close>

record args =
  args_cluster :: string
  args_host :: "string option"
  args_username :: "string option"
  args_data :: "string option"
  args_journal :: "string option"
  args_zap_disk :: bool
  args_fs_type :: string
  args_dmcrypt :: bool
  args_dmcrypt_key_dir :: string
  args_filestore :: bool
  args_block_wal :: "string option"
  args_block_db :: "string option"
  args_overwrite_conf :: bool
  args_disk :: "(string \<times> string option \<times> string option) list"

subsection \<open>Computations with effects\<close>

text \<open>
  A computation takes the trace so far and returns a value or the exception it
  raised, with the trace extended by what it did.
\<close>

type_synonym 'a io = "event list \<Rightarrow> (exn + 'a) \<times> event list"

definition ret :: "'a \<Rightarrow> 'a io" where
  "ret x = (\<lambda>t. (Inr x, t))"

definition throw :: "exn \<Rightarrow> 'a io" where
  "throw e = (\<lambda>t. (Inl e, t))"

definition lift :: "exn + 'a \<Rightarrow> 'a io" where
  "lift r = (\<lambda>t. (r, t))"

definition emit :: "event \<Rightarrow> unit io" where
  "emit ev = (\<lambda>t. (Inr (), t @ [ev]))"

definition bnd :: "'a io \<Rightarrow> ('a \<Rightarrow> 'b io) \<Rightarrow> 'b io" where
  "bnd m f = (\<lambda>t. case m t of (Inl e, t') \<Rightarrow> (Inl e, t') | (Inr x, t') \<Rightarrow> f x t')"

text \<open>\<^verbatim>\<open>try: m except C as e: handler(e)\<close>, where \<open>catches\<close> says which exceptions are a \<open>C\<close>.\<close>

definition try_except :: "'a io \<Rightarrow> (exn \<Rightarrow> bool) \<Rightarrow> (exn \<Rightarrow> 'a io) \<Rightarrow> 'a io" where
  "try_except m catches handler =
     (\<lambda>t. case m t of
             (Inl e, t') \<Rightarrow> if catches e then handler e t' else (Inl e, t')
           | (Inr x, t') \<Rightarrow> (Inr x, t'))"

text \<open>\<^verbatim>\<open>for x in xs: body(x)\<close>.\<close>

fun for_each :: "'a list \<Rightarrow> ('a \<Rightarrow> unit io) \<Rightarrow> unit io" where
  "for_each [] body = ret ()"
| "for_each (x # xs) body = bnd (body x) (\<lambda>_. for_each xs body)"

definition log_msg :: "logger \<Rightarrow> level \<Rightarrow> string \<Rightarrow> unit io" where
  "log_msg lg lvl msg = emit (Log lg lvl msg)"

text \<open>\<^verbatim>\<open>except RuntimeError\<close>: the class itself and the classes deriving from it.\<close>

definition is_RuntimeError :: "env \<Rightarrow> exn \<Rightarrow> bool" where
  "is_RuntimeError env e =
     (case e of RuntimeError _ \<Rightarrow> True | ExcError cls _ \<Rightarrow> exc_runtime env cls | _ \<Rightarrow> False)"

definition is_TypeError :: "exn \<Rightarrow> bool" where
  "is_TypeError e = (case e of TypeError _ \<Rightarrow> True | _ \<Rightarrow> False)"

text \<open>\<^verbatim>\<open>str(e)\<close>: the message of an exception.\<close>

fun exn_str :: "exn \<Rightarrow> string" where
  "exn_str (RuntimeError m) = m"
| "exn_str (NameError m) = m"
| "exn_str (TypeError m) = m"
| "exn_str (ValueError m) = m"
| "exn_str (IndexError m) = m"
| "exn_str (KeyError m) = m"
| "exn_str (AttributeError m) = m"
| "exn_str (ExcError cls m) = m"

subsection \<open>The remote calls\<close>

text \<open>
  Modelled from the spec: the helpers \<^verbatim>\<open>path_exists\<close> and \<^verbatim>\<open>write_keyring\<close> of
  \<^verbatim>\<open>conn.remote_module\<close>, which this file of the repository only calls. A path exists
  on a host when it existed at the start of the run or a keyring was written to it
  since; writing a keyring is recorded in the trace.
\<close>

definition written :: "string \<Rightarrow> string \<Rightarrow> event \<Rightarrow> bool" where
  "written h path ev = (case ev of WriteKeyring h' p _ \<Rightarrow> h' = h \<and> p = path | _ \<Rightarrow> False)"

definition path_exists :: "conn \<Rightarrow> string \<Rightarrow> bool io" where
  "path_exists conn path =
     (\<lambda>t. (Inr (path_exists0 conn path \<or> list_ex (written (conn_hostname conn) path) t), t))"

definition write_keyring :: "conn \<Rightarrow> string \<Rightarrow> string \<Rightarrow> unit io" where
  "write_keyring conn path key = emit (WriteKeyring (conn_hostname conn) path key)"

text \<open>
  \<^verbatim>\<open>remoto.process.run(conn, args)\<close> and \<^verbatim>\<open>remoto.process.check(conn, command)\<close>: the
  command is dispatched, then the host's answer comes back.
\<close>

definition remoto_process_run :: "conn \<Rightarrow> string list \<Rightarrow> unit io" where
  "remoto_process_run conn argv =
     bnd (emit (ProcessRun (conn_hostname conn) argv)) (\<lambda>_.
       case process_run conn argv of None \<Rightarrow> ret () | Some e \<Rightarrow> throw e)"

definition remoto_process_check ::
  "conn \<Rightarrow> string list \<Rightarrow> (string list \<times> string list \<times> int) option io" where
  "remoto_process_check conn command =
     bnd (emit (ProcessCheck (conn_hostname conn) command)) (\<lambda>_. lift (process_check conn command))"

text \<open>
  \<^verbatim>\<open>out, err, code = result\<close>: unpacking \<open>None\<close> raises TypeError.
\<close>

definition unpack3 :: "('a \<times> 'b \<times> 'c) option \<Rightarrow> ('a \<times> 'b \<times> 'c) io" where
  "unpack3 r =
     (case r of
        None \<Rightarrow> throw (TypeError ''cannot unpack non-iterable NoneType object'')
      | Some x \<Rightarrow> ret x)"

subsection \<open>The bootstrap key\<close>

text \<open>
  \<^verbatim>\<open>get_bootstrap_osd_key(cluster)\<close>: reads the local file
  \<^verbatim>\<open><cluster>.bootstrap-osd.keyring\<close>; an IOError becomes a RuntimeError.
\<close>

definition get_bootstrap_osd_key :: "env \<Rightarrow> string \<Rightarrow> exn + string" where
  "get_bootstrap_osd_key env cluster =
     (let path = cluster @ ''.bootstrap-osd.keyring'' in
      case open_rb env path of
        Some content \<Rightarrow> Inr content
      | None \<Rightarrow>
          Inl (RuntimeError (''bootstrap-osd keyring not found; run '' @ [CHR 0x27]
                 @ ''gatherkeys'' @ [CHR 0x27])))"

text \<open>
  \<^verbatim>\<open>create_osd_keyring(conn, cluster, key)\<close>: writes the bootstrap key on the host if
  it is not there yet.
\<close>

definition create_osd_keyring :: "conn \<Rightarrow> string \<Rightarrow> string \<Rightarrow> unit io" where
  "create_osd_keyring conn cluster key =
     (let logger = ConnLogger (conn_hostname conn);
          path = ''/var/lib/ceph/bootstrap-osd/'' @ cluster @ ''.keyring'' in
      bnd (path_exists conn path) (\<lambda>exists.
        if \<not> exists then
          bnd (log_msg logger WARNING ''osd keyring does not exist yet, creating one'') (\<lambda>_.
            write_keyring conn path key)
        else ret ()))"


subsection \<open>The OSD status\<close>

text \<open>
  The loop both \<^verbatim>\<open>osd_tree\<close> and \<^verbatim>\<open>osd_status_check\<close> run over the loaded dict:
  \<^verbatim>\<open>
  for k, v in loaded_json.items():
      if v == 'true':
          loaded_json[k] = True
      elif v == 'false':
          loaded_json[k] = False
  \<close>
  One step handles one item; the loop visits the items the dict had at the start.
\<close>

definition convert_step :: "string \<times> json \<Rightarrow> dict \<Rightarrow> dict" where
  "convert_step kv loaded_json =
     (case kv of (k, v) \<Rightarrow>
        if v = JStr ''true'' then dict_set k (JBool True) loaded_json
        else if v = JStr ''false'' then dict_set k (JBool False) loaded_json
        else loaded_json)"

definition convert_boolean_strings :: "dict \<Rightarrow> dict" where
  "convert_boolean_strings loaded_json = fold convert_step loaded_json loaded_json"

text \<open>
  The second \<^verbatim>\<open>try\<close> block of both functions: join and decode the output, load it,
  convert the boolean strings; a ValueError gives the empty dict. A loaded value
  that is not a dict has no \<^verbatim>\<open>items\<close>, and that AttributeError is not caught.
\<close>

definition load_json :: "env \<Rightarrow> string list \<Rightarrow> dict io" where
  "load_json env out =
     (case json_loads env (concat out) of
        None \<Rightarrow> ret []
      | Some (JDict loaded_json) \<Rightarrow> ret (convert_boolean_strings loaded_json)
      | Some _ \<Rightarrow> throw (AttributeError ''items''))"

text \<open>\<^verbatim>\<open>osd_tree(conn, cluster)\<close>: the unpacking of the result is not guarded here.\<close>

definition osd_tree :: "env \<Rightarrow> conn \<Rightarrow> string \<Rightarrow> dict io" where
  "osd_tree env conn cluster =
     bnd (lift (executable_path conn ''ceph'')) (\<lambda>ceph_executable.
     let command = [ceph_executable, ''--cluster='' @ cluster, ''osd'', ''tree'',
                    ''--format=json''] in
     bnd (bnd (remoto_process_check conn command) unpack3) (\<lambda>(out, err, code).
       load_json env out))"

text \<open>
  \<^verbatim>\<open>osd_status_check(conn, cluster)\<close>: the call and the unpacking of its result are
  inside \<^verbatim>\<open>try: ... except TypeError: return {}\<close>.
\<close>

definition osd_status_check :: "env \<Rightarrow> conn \<Rightarrow> string \<Rightarrow> dict io" where
  "osd_status_check env conn cluster =
     bnd (lift (executable_path conn ''ceph'')) (\<lambda>ceph_executable.
     let command = [ceph_executable, ''--cluster='' @ cluster, ''osd'', ''stat'',
                    ''--format=json''] in
     bnd (try_except
            (bnd (bnd (remoto_process_check conn command) unpack3) (\<lambda>r. ret (Some r)))
            is_TypeError
            (\<lambda>_. ret None)) (\<lambda>r.
       case r of
         None \<Rightarrow> ret []
       | Some (out, err, code) \<Rightarrow> load_json env out))"

text \<open>
  The text of the two count warnings:
  \<^verbatim>\<open>'there %s %d OSD%s down' % (['is', 'are'][difference != 1], difference, "s"[difference == 1:])\<close>
\<close>

definition count_warning :: "int \<Rightarrow> string \<Rightarrow> string" where
  "count_warning difference what =
     ''there '' @ (if difference \<noteq> 1 then ''are'' else ''is'') @ '' '' @ str_of_int difference
       @ '' OSD'' @ (if difference = 1 then [] else ''s'') @ '' '' @ what"

text \<open>\<^verbatim>\<open>catch_osd_errors(conn, logger, args)\<close>.\<close>

definition catch_osd_errors :: "env \<Rightarrow> conn \<Rightarrow> logger \<Rightarrow> args \<Rightarrow> unit io" where
  "catch_osd_errors env conn logger args =
     bnd (log_msg logger INFO ''checking OSD status...'') (\<lambda>_.
     bnd (osd_status_check env conn (args_cluster args)) (\<lambda>status.
     bnd (lift (py_int (int_of_str env) (dict_get status ''num_osds'' (JInt 0)))) (\<lambda>osds.
     bnd (lift (py_int (int_of_str env) (dict_get status ''num_up_osds'' (JInt 0)))) (\<lambda>up_osds.
     bnd (lift (py_int (int_of_str env) (dict_get status ''num_in_osds'' (JInt 0)))) (\<lambda>in_osds.
     let full = dict_get status ''full'' (JBool False);
         nearfull = dict_get status ''nearfull'' (JBool False) in
     bnd (if osds > up_osds
          then log_msg logger WARNING (count_warning (osds - up_osds) ''down'')
          else ret ()) (\<lambda>_.
     bnd (if osds > in_osds
          then log_msg logger WARNING (count_warning (osds - in_osds) ''out'')
          else ret ()) (\<lambda>_.
     bnd (if truthy full then log_msg logger WARNING ''OSDs are full!'' else ret ()) (\<lambda>_.
     if truthy nearfull then log_msg logger WARNING ''OSDs are near full!'' else ret ()))))))))"

subsection \<open>Preparing a disk\<close>

text \<open>
  The name \<^verbatim>\<open>logger\<close> is bound nowhere in \<^verbatim>\<open>prepare_disk\<close> or in the module (the
  module's logger is \<^verbatim>\<open>LOG\<close>), so evaluating \<^verbatim>\<open>logger.warning(...)\<close> raises NameError.
\<close>

definition logger_unbound :: exn where
  "logger_unbound = NameError (''name '' @ [CHR 0x27] @ ''logger'' @ [CHR 0x27] @ '' is not defined'')"

text \<open>
  \<^verbatim>\<open>prepare_disk(conn, cluster, data, journal, zap, fs_type, dmcrypt, dmcrypt_dir,
  storetype, block_wal, block_db, create=False)\<close>.
\<close>

definition prepare_disk ::
  "conn \<Rightarrow> string \<Rightarrow> string \<Rightarrow> string option \<Rightarrow> bool \<Rightarrow> string \<Rightarrow> bool \<Rightarrow> string \<Rightarrow> string
     \<Rightarrow> string option \<Rightarrow> string option \<Rightarrow> bool \<Rightarrow> unit io" where
  "prepare_disk conn cluster data journal zap fs_type dmcrypt dmcrypt_dir storetype
       block_wal block_db create =
     bnd (lift (executable_path conn ''ceph-volume'')) (\<lambda>ceph_volume_executable.
     let args = [ceph_volume_executable, ''--cluster'', cluster, ''lvm'',
                 (if create then ''create'' else ''prepare''), ''--'' @ storetype,
                 ''--data'', data] in
     bnd (if zap then throw logger_unbound else ret ()) (\<lambda>_.
     bnd (if dmcrypt then (let args = args @ [''--dmcrypt''] in throw logger_unbound)
          else ret args) (\<lambda>args.
     bnd (if storetype = ''bluestore'' then
            (let args = (if \<not> falsy block_wal then args @ [''--block.wal'', the block_wal]
                         else args);
                 args = (if \<not> falsy block_db then args @ [''--block.db'', the block_db]
                         else args)
             in ret args)
          else if storetype = ''filestore'' then
            (if falsy journal then
               throw (RuntimeError
                 ''A journal lv or GPT partition must be specified when using filestore'')
             else ret (args @ [''--journal'', the journal]))
          else ret args) (\<lambda>args.
     remoto_process_run conn args))))"

subsection \<open>Preparing a host\<close>

definition hosts_get_io :: "env \<Rightarrow> string option \<Rightarrow> distro io" where
  "hosts_get_io env hostname =
     bnd (emit (HostsGet hostname)) (\<lambda>_. lift (hosts_get env hostname))"

definition remote_write_conf :: "conn \<Rightarrow> string \<Rightarrow> string \<Rightarrow> bool \<Rightarrow> unit io" where
  "remote_write_conf conn cluster conf_data overwrite =
     bnd (emit (WriteConf (conn_hostname conn) cluster conf_data overwrite)) (\<lambda>_.
       case write_conf conn cluster conf_data overwrite of
         None \<Rightarrow> ret ()
       | Some e \<Rightarrow> throw e)"

text \<open>
  The \<^verbatim>\<open>try\<close> block of \<^verbatim>\<open>prepare\<close>. The host is the one \<^verbatim>\<open>args.host\<close>; the set
  \<^verbatim>\<open>bootstrapped\<close> is empty when the block starts.
\<close>

definition prepare_try :: "env \<Rightarrow> args \<Rightarrow> bool \<Rightarrow> string \<Rightarrow> unit io" where
  "prepare_try env args create key =
     (let hostname = args_host args; bootstrapped = ({} :: string option set) in
      case args_data args of
        None \<Rightarrow> throw (ExcError ''NeedDiskError'' (str_opt hostname))
      | Some data \<Rightarrow>
     bnd (hosts_get_io env hostname) (\<lambda>distro.
     bnd (log_msg ModuleLOG INFO (''Distro info: '' @ distro_name distro @ '' ''
            @ distro_release distro @ '' '' @ distro_codename distro)) (\<lambda>_.
     bnd (if hostname \<notin> bootstrapped then
            bnd (log_msg ModuleLOG DEBUG (''Deploying osd to '' @ str_opt hostname)) (\<lambda>_.
            bnd (lift (load_raw env)) (\<lambda>conf_data.
            bnd (remote_write_conf (distro_conn distro) (args_cluster args) conf_data
                   (args_overwrite_conf args)) (\<lambda>_.
            create_osd_keyring (distro_conn distro) (args_cluster args) key)))
          else ret ()) (\<lambda>_.
     bnd (log_msg ModuleLOG DEBUG
            (''Preparing host '' @ str_opt hostname @ '' data '' @ data)) (\<lambda>_.
     let storetype = (if args_filestore args then ''filestore'' else ''bluestore'') in
     bnd (prepare_disk (distro_conn distro) (args_cluster args) data (args_journal args)
            (args_zap_disk args) (args_fs_type args) (args_dmcrypt args)
            (args_dmcrypt_key_dir args) storetype (args_block_wal args) (args_block_db args)
            create) (\<lambda>_.
     bnd (emit (Sleep 5)) (\<lambda>_.
     bnd (catch_osd_errors env (distro_conn distro)
            (ConnLogger (conn_hostname (distro_conn distro))) args) (\<lambda>_.
     bnd (log_msg ModuleLOG DEBUG
            (''Host '' @ str_opt hostname @ '' is now ready for osd use.'')) (\<lambda>_.
     emit (ConnExit (conn_hostname (distro_conn distro))))))))))))"

text \<open>
  \<^verbatim>\<open>prepare(args, cfg, create=False)\<close>: the key is read before the \<^verbatim>\<open>try\<close> block; a
  RuntimeError of the block is logged and counted, and a count that is not zero ends
  the call with \<^verbatim>\<open>exc.GenericError('Failed to create %d OSDs' % errors)\<close>.
\<close>

definition prepare :: "env \<Rightarrow> args \<Rightarrow> bool \<Rightarrow> unit io" where
  "prepare env args create =
     bnd (log_msg ModuleLOG DEBUG (''Preparing cluster '' @ args_cluster args
            @ '' on data device '' @ str_opt (args_data args))) (\<lambda>_.
     bnd (lift (get_bootstrap_osd_key env (args_cluster args))) (\<lambda>key.
     let errors = (0 :: int) in
     bnd (try_except
            (bnd (prepare_try env args create key) (\<lambda>_. ret errors))
            (is_RuntimeError env)
            (\<lambda>e. bnd (log_msg ModuleLOG ERROR (exn_str e)) (\<lambda>_. ret (errors + 1)))) (\<lambda>errors.
     if errors \<noteq> 0 then
       throw (ExcError ''GenericError'' (''Failed to create '' @ str_of_int errors @ '' OSDs''))
     else ret ())))"


subsection \<open>Listing the OSDs of a host\<close>

text \<open>\<^verbatim>\<open>os.path.join(a, b)\<close> on a POSIX control node.\<close>

definition path_join :: "string \<Rightarrow> string \<Rightarrow> string" where
  "path_join a b =
     (if b \<noteq> [] \<and> hd b = CHR ''/'' then b
      else if a = [] \<or> last a = CHR ''/'' then a @ b
      else a @ ''/'' @ b)"

text \<open>\<^verbatim>\<open>s.split(sep)\<close> for a separator of one character; the result is never empty.\<close>

fun split_on :: "char \<Rightarrow> string \<Rightarrow> string list" where
  "split_on sep [] = [[]]"
| "split_on sep (c # cs) =
     (if c = sep then [] # split_on sep cs
      else (case split_on sep cs of p # ps \<Rightarrow> (c # p) # ps | [] \<Rightarrow> [[c]]))"

text \<open>
  \<^verbatim>\<open>for blob in tree['nodes']\<close> iterates a list; a string gives its characters and a
  dict its keys; anything else is not iterable.
\<close>

fun py_iter :: "json \<Rightarrow> exn + json list" where
  "py_iter (JList xs) = Inr xs"
| "py_iter (JStr s) = Inr (map (\<lambda>c. JStr [c]) s)"
| "py_iter (JDict d) = Inr (map (\<lambda>kv. JStr (fst kv)) d)"
| "py_iter v = Inl (TypeError ''object is not iterable'')"

text \<open>\<^verbatim>\<open>v == i\<close> for a JSON value and an integer (\<^verbatim>\<open>True == 1\<close> and \<^verbatim>\<open>1.0 == 1\<close> hold).\<close>

fun json_eq_int :: "json \<Rightarrow> int \<Rightarrow> bool" where
  "json_eq_int (JInt j) i = (j = i)"
| "json_eq_int (JBool b) i = ((if b then 1 else 0) = i)"
| "json_eq_int (JFloat r) i = (r = of_int i)"
| "json_eq_int v i = False"

text \<open>
  \<^verbatim>\<open>
  for blob in tree['nodes']:
      if blob.get('id') == _id:  # matches our OSD
          json_blob = blob
  \<close>
  A blob that is not a dict has no \<^verbatim>\<open>get\<close>.
\<close>

fun find_blob :: "json list \<Rightarrow> int \<Rightarrow> dict \<Rightarrow> exn + dict" where
  "find_blob [] osd_id json_blob = Inr json_blob"
| "find_blob (blob # blobs) osd_id json_blob =
     (case blob of
        JDict b \<Rightarrow>
          find_blob blobs osd_id
            (if json_eq_int (dict_get b ''id'' JNull) osd_id then b else json_blob)
      | _ \<Rightarrow> Inl (AttributeError ''get''))"

text \<open>
  \<^verbatim>\<open>
  for f in interesting_files:
      osd_f_path = os.path.join(osd_path, f)
      if remote_module.path_exists(osd_f_path):
          metadata[f] = remote_module.readline(osd_f_path)
  \<close>
\<close>

fun read_files ::
  "conn \<Rightarrow> string \<Rightarrow> string list \<Rightarrow> (string \<times> string) list \<Rightarrow> (string \<times> string) list io" where
  "read_files conn osd_path [] metadata = ret metadata"
| "read_files conn osd_path (f # fs) metadata =
     (let osd_f_path = path_join osd_path f in
      bnd (path_exists conn osd_f_path) (\<lambda>exists.
        read_files conn osd_path fs
          (if exists then dict_set f (readline conn osd_f_path) metadata else metadata)))"

text \<open>
  \<^verbatim>\<open>print_osd(logger, hostname, osd_path, json_blob, metadata)\<close>: the record it is given
  is the event; how it lays the lines out is not modelled.
\<close>

definition print_osd ::
  "logger \<Rightarrow> string \<Rightarrow> string \<Rightarrow> dict \<Rightarrow> (string \<times> string) list \<Rightarrow> unit io" where
  "print_osd logger hostname osd_path json_blob metadata =
     emit (PrintOsd hostname osd_path json_blob metadata)"

definition interesting_files :: "string list" where
  "interesting_files = [''active'', ''magic'', ''whoami'', ''journal_uuid'']"

text \<open>The body of \<^verbatim>\<open>for _osd in osds\<close> in \<^verbatim>\<open>osd_list\<close>.\<close>

definition osd_list_entry ::
  "env \<Rightarrow> conn \<Rightarrow> string \<Rightarrow> dict \<Rightarrow> string list \<Rightarrow> string \<Rightarrow> unit io" where
  "osd_list_entry env conn hostname tree output osd =
     (let osd_path = path_join (constants_osd_path env) osd;
          journal_path = path_join osd_path ''journal'' in
      bnd (lift (case int_of_str env (last (split_on CHR ''-'' osd)) of
                   None \<Rightarrow> Inl (ValueError ''invalid literal for int() with base 10'')
                 | Some i \<Rightarrow> Inr i)) (\<lambda>osd_id.
      let osd_name = ''osd.'' @ str_of_int osd_id;
          metadata = [];
          json_blob = [] in
      bnd (lift (get_osd_mount_point output osd_name)) (\<lambda>device.
      let metadata = (if \<not> falsy device then dict_set ''device'' (the device) metadata
                      else metadata) in
      bnd (read_files conn osd_path interesting_files metadata) (\<lambda>metadata.
      bnd (path_exists conn journal_path) (\<lambda>exists.
      let metadata = (if exists
                      then dict_set ''journal path'' (get_realpath conn journal_path) metadata
                      else metadata) in
      bnd (lift (case map_of tree ''nodes'' of
                   None \<Rightarrow> Inl (KeyError ''nodes'')
                 | Some nodes \<Rightarrow>
                     (case py_iter nodes of
                        Inl e \<Rightarrow> Inl e
                      | Inr blobs \<Rightarrow> find_blob blobs osd_id json_blob))) (\<lambda>json_blob.
      print_osd (ConnLogger (conn_hostname conn)) hostname osd_path json_blob metadata))))))"

text \<open>The body of \<^verbatim>\<open>for hostname, disk, journal in args.disk\<close> in \<^verbatim>\<open>osd_list\<close>.\<close>

definition osd_list_host ::
  "env \<Rightarrow> dict \<Rightarrow> string \<times> string option \<times> string option \<Rightarrow> unit io" where
  "osd_list_host env tree target =
     (case target of (hostname, disk, journal) \<Rightarrow>
      bnd (hosts_get_io env (Some hostname)) (\<lambda>distro.
      let conn = distro_conn distro;
          osds = listdir conn (constants_osd_path env) in
      bnd (lift (executable_path conn ''ceph-disk'')) (\<lambda>ceph_disk_executable.
      bnd (bnd (remoto_process_check conn [ceph_disk_executable, ''list'']) unpack3)
        (\<lambda>(output, err, exit_code).
      bnd (for_each osds (osd_list_entry env conn hostname tree output)) (\<lambda>_.
      emit (ConnExit (conn_hostname conn)))))))"

text \<open>\<^verbatim>\<open>osd_list(args, cfg)\<close>: the tree comes from the first monitor.\<close>

definition osd_list :: "env \<Rightarrow> args \<Rightarrow> unit io" where
  "osd_list env args =
     bnd (lift (get_mon_initial_members env)) (\<lambda>monitors.
     case monitors of
       [] \<Rightarrow> throw (IndexError ''list index out of range'')
     | mon_host # _ \<Rightarrow>
     bnd (hosts_get_io env (Some mon_host)) (\<lambda>distro.
     bnd (osd_tree env (distro_conn distro) (args_cluster args)) (\<lambda>tree.
     bnd (emit (ConnExit (conn_hostname (distro_conn distro)))) (\<lambda>_.
     for_each (args_disk args) (osd_list_host env tree)))))"


subsection \<open>Example hosts and runs\<close>

text \<open>
  Concrete hosts and a concrete environment, on which the properties below are
  evaluated. \<open>quoted s\<close> is \<open>s\<close> between double quotes.
\<close>

definition quoted :: "string \<Rightarrow> string" where
  "quoted s = CHR 0x22 # s @ [CHR 0x22]"

text \<open>The output of \<^verbatim>\<open>ceph osd stat --format=json\<close> with 5 OSDs, and what it loads to.\<close>

definition stat_text :: "string \<Rightarrow> string" where
  "stat_text up =
     ''{'' @ quoted ''epoch'' @ '': 8, '' @ quoted ''num_osds'' @ '': 5, ''
       @ quoted ''num_up_osds'' @ '': '' @ up @ '', ''
       @ quoted ''num_in_osds'' @ '': '' @ quoted ''5'' @ '', ''
       @ quoted ''full'' @ '': '' @ quoted ''false'' @ '', ''
       @ quoted ''nearfull'' @ '': '' @ quoted ''false'' @ ''}''"

definition stat_dict :: "int \<Rightarrow> dict" where
  "stat_dict up =
     [(''epoch'', JInt 8), (''num_osds'', JInt 5), (''num_up_osds'', JInt up),
      (''num_in_osds'', JStr ''5''), (''full'', JStr ''false''), (''nearfull'', JStr ''false'')]"

text \<open>The output of \<^verbatim>\<open>ceph osd tree --format=json\<close> with the one node \<^verbatim>\<open>osd.1\<close>.\<close>

definition tree_text :: string where
  "tree_text =
     ''{'' @ quoted ''nodes'' @ '': [{'' @ quoted ''id'' @ '': 1, ''
       @ quoted ''name'' @ '': '' @ quoted ''osd.1'' @ '', ''
       @ quoted ''status'' @ '': '' @ quoted ''up'' @ '', ''
       @ quoted ''reweight'' @ '': 1.0}]}''"

definition tree_dict :: dict where
  "tree_dict =
     [(''nodes'', JList [JDict [(''id'', JInt 1), (''name'', JStr ''osd.1''),
                               (''status'', JStr ''up''), (''reweight'', JFloat 1)]])]"

text \<open>A host on which every \<^verbatim>\<open>remoto.process.check\<close> times out.\<close>

definition timeout_conn :: conn where
  "timeout_conn =
     \<lparr>conn_hostname = ''node1'',
      executable_path = (\<lambda>name. Inr (''/usr/bin/'' @ name)),
      path_exists0 = (\<lambda>path. False),
      process_run = (\<lambda>argv. None),
      process_check = (\<lambda>command. Inr None),
      write_conf = (\<lambda>cluster conf_data overwrite. None),
      listdir = (\<lambda>path. []),
      readline = (\<lambda>path. []),
      get_realpath = (\<lambda>path. path)\<rparr>"

text \<open>A host that reports 5 OSDs of which \<open>up\<close> are up.\<close>

definition stat_conn :: "string \<Rightarrow> conn" where
  "stat_conn up =
     timeout_conn\<lparr>conn_hostname := ''node3'',
                  process_check := (\<lambda>command. Inr (Some ([stat_text up], [], 0)))\<rparr>"

text \<open>A monitor that reports the tree above.\<close>

definition mon_conn :: conn where
  "mon_conn =
     timeout_conn\<lparr>conn_hostname := ''mon1'',
                  process_check := (\<lambda>command. Inr (Some ([tree_text], [], 0)))\<rparr>"

text \<open>
  A host with the OSD directory \<^verbatim>\<open>ceph-1\<close>, the files \<^verbatim>\<open>whoami\<close> and \<^verbatim>\<open>active\<close> in it,
  and the given line as the output of \<^verbatim>\<open>ceph-disk list\<close>.
\<close>

definition osd_conn :: "string \<Rightarrow> conn" where
  "osd_conn line =
     timeout_conn\<lparr>conn_hostname := ''node4'',
        path_exists0 := (\<lambda>path. path = ''/var/lib/ceph/osd/ceph-1/whoami''
                                \<or> path = ''/var/lib/ceph/osd/ceph-1/active''),
        process_check := (\<lambda>command. Inr (Some ([line], [], 0))),
        listdir := (\<lambda>path. if path = ''/var/lib/ceph/osd'' then [''ceph-1''] else []),
        readline := (\<lambda>path. if path = ''/var/lib/ceph/osd/ceph-1/whoami'' then ''1''
                             else if path = ''/var/lib/ceph/osd/ceph-1/active'' then ''ok''
                             else [])\<rparr>"

definition example_distro :: "conn \<Rightarrow> distro" where
  "example_distro conn =
     \<lparr>distro_name = ''Ubuntu'', distro_release = ''18.04'', distro_codename = ''bionic'',
      distro_conn = conn\<rparr>"

text \<open>
  The environment: the key file of the cluster \<^verbatim>\<open>ceph\<close> is there; \<^verbatim>\<open>node2\<close> cannot be
  reached; \<^verbatim>\<open>node4\<close> lists the given line.
\<close>

definition example_env :: "string \<Rightarrow> env" where
  "example_env line =
     \<lparr>open_rb = (\<lambda>path. if path = ''ceph.bootstrap-osd.keyring''
                         then Some ''[client.bootstrap-osd]'' else None),
      hosts_get = (\<lambda>hostname.
         if hostname = Some ''node1'' then Inr (example_distro timeout_conn)
         else if hostname = Some ''node3'' then Inr (example_distro (stat_conn ''3''))
         else if hostname = Some ''node4'' then Inr (example_distro (osd_conn line))
         else if hostname = Some ''mon1'' then Inr (example_distro mon_conn)
         else Inl (RuntimeError ''connecting to host resulted in errors'')),
      load_raw = Inr ''[global]'',
      json_loads = (\<lambda>text.
         if text = stat_text ''3'' then Some (JDict (stat_dict 3))
         else if text = stat_text ''4'' then Some (JDict (stat_dict 4))
         else if text = tree_text then Some (JDict tree_dict)
         else None),
      int_of_str = (\<lambda>s. if s = ''1'' then Some 1 else if s = ''5'' then Some 5 else None),
      exc_runtime = (\<lambda>cls. False),
      get_mon_initial_members = Inr [''mon1''],
      constants_osd_path = ''/var/lib/ceph/osd''\<rparr>"

text \<open>The command line \<^verbatim>\<open>ceph-deploy osd prepare --data /dev/sdb <host>\<close>.\<close>

definition example_args :: "string \<Rightarrow> args" where
  "example_args h =
     \<lparr>args_cluster = ''ceph'', args_host = Some h, args_username = None,
      args_data = Some ''/dev/sdb'', args_journal = None, args_zap_disk = False,
      args_fs_type = ''xfs'', args_dmcrypt = False,
      args_dmcrypt_key_dir = ''/etc/ceph/dmcrypt-keys'', args_filestore = False,
      args_block_wal = None, args_block_db = None, args_overwrite_conf = False,
      args_disk = [(h, None, None)]\<rparr>"


subsection \<open>What a trace shows\<close>

text \<open>The hosts with which a session was opened, in order.\<close>

definition sessions :: "event list \<Rightarrow> string option list" where
  "sessions t = concat (map (\<lambda>ev. case ev of HostsGet h \<Rightarrow> [h] | _ \<Rightarrow> []) t)"

text \<open>The records handed to \<^verbatim>\<open>print_osd\<close>, in order.\<close>

definition printed :: "event list \<Rightarrow> (string \<times> string \<times> dict \<times> (string \<times> string) list) list" where
  "printed t =
     concat (map (\<lambda>ev. case ev of PrintOsd h p b m \<Rightarrow> [(h, p, b, m)] | _ \<Rightarrow> []) t)"

text \<open>An environment in which every host is reached and its \<^verbatim>\<open>ceph-volume\<close> fails.\<close>

definition failing_env :: env where
  "failing_env = (example_env [])\<lparr>hosts_get := (\<lambda>hostname. Inr (example_distro
      (timeout_conn\<lparr>process_run :=
         (\<lambda>argv. Some (RuntimeError ''command returned non-zero exit status: 1''))\<rparr>)))\<rparr>"

section \<open>Properties\<close>

subsection \<open>The mount point scan\<close>

lemma scan_parts_short:
  "length lp < 2 \<Longrightarrow> ps \<noteq> [] \<Longrightarrow>
   scan_parts lp ps osd_name = Inl (IndexError ''list index out of range'')"
  by (cases ps) simp_all

lemma scan_parts_long:
  "2 \<le> length lp \<Longrightarrow>
   scan_parts lp ps osd_name = Inr (if osd_name \<in> set ps then Some (lp ! 1) else None)"
  by (induction ps) auto

lemma split_go_nonempty: "split_go b cur s \<noteq> []"
  by (induction s arbitrary: b cur) auto

lemma re_split_nonempty: "re_split line \<noteq> []"
  by (simp add: re_split_def split_go_nonempty)

lemma get_osd_mount_point_long:
  "\<forall>line\<in>set output. 2 \<le> length (re_split line) \<Longrightarrow>
   get_osd_mount_point output osd_name =
     Inr (case find (\<lambda>line. osd_name \<in> set (re_split line)) output of
            None \<Rightarrow> None
          | Some line \<Rightarrow> Some (re_split line ! 1))"
  by (induction "output") (auto simp: scan_parts_long Let_def)

lemma get_osd_mount_point_short:
  "length (re_split line) < 2 \<Longrightarrow>
   \<forall>l\<in>set pre. 2 \<le> length (re_split l) \<and> osd_name \<notin> set (re_split l) \<Longrightarrow>
   get_osd_mount_point (pre @ line # post) osd_name =
     Inl (IndexError ''list index out of range'')"
  by (induction pre) (auto simp: scan_parts_long scan_parts_short re_split_nonempty Let_def)

text \<open>
  C10. On a listing whose every line splits into at least two fields,
  \<^verbatim>\<open>get_osd_mount_point\<close> returns a result: the second field of the earliest line
  that has a field equal to the OSD name, and \<open>None\<close> when no line has one. The
  condition is needed: a line of fewer than two fields that comes before the first
  match makes the function raise IndexError, because the second field is read
  before the comparison.
\<close>

theorem get_osd_mount_point_total:
  "((\<forall>line\<in>set output. 2 \<le> length (re_split line)) \<longrightarrow>
      get_osd_mount_point output osd_name =
        Inr (case find (\<lambda>line. osd_name \<in> set (re_split line)) output of
               None \<Rightarrow> None
             | Some line \<Rightarrow> Some (re_split line ! 1)))
   \<and> (length (re_split short) < 2
        \<and> (\<forall>l\<in>set pre. 2 \<le> length (re_split l) \<and> osd_name \<notin> set (re_split l)) \<longrightarrow>
      get_osd_mount_point (pre @ short # post) osd_name =
        Inl (IndexError ''list index out of range''))"
  using get_osd_mount_point_long get_osd_mount_point_short by blast

theorem get_osd_mount_point_total_witness:
  "2 \<le> length (re_split ''/dev/sda :'')
   \<and> 2 \<le> length (re_split '' /dev/sdb1 ceph data, active, cluster ceph, osd.1, journal /dev/sdb2'')
   \<and> get_osd_mount_point
        [''/dev/sda :'', '' /dev/sdb1 ceph data, active, cluster ceph, osd.1, journal /dev/sdb2'']
        ''osd.1'' = Inr (Some ''/dev/sdb1'')
   \<and> length (re_split []) < 2
   \<and> ''osd.1'' \<notin> set (re_split ''/dev/sda :'')
   \<and> get_osd_mount_point
        ([''/dev/sda :''] @ [] # ['' /dev/sdb1 ceph data, active, cluster ceph, osd.1, journal /dev/sdb2''])
        ''osd.1'' = Inl (IndexError ''list index out of range'')"
  using get_osd_mount_point_total
    [of "[''/dev/sda :'', '' /dev/sdb1 ceph data, active, cluster ceph, osd.1, journal /dev/sdb2'']"
        "''osd.1''" "''''" "[''/dev/sda :'']"
        "['' /dev/sdb1 ceph data, active, cluster ceph, osd.1, journal /dev/sdb2'']"]
  by (simp add: re_split_def is_delim_def)

subsection \<open>Key, status and warnings\<close>

lemmas io_defs = ret_def throw_def lift_def emit_def bnd_def try_except_def log_msg_def

lemma map_of_dict_set: "map_of (dict_set k v d) = (map_of d)(k \<mapsto> v)"
  by (induction d) (auto simp: fun_eq_iff)

lemma keys_dict_set: "k \<in> fst ` set d \<Longrightarrow> map fst (dict_set k v d) = map fst d"
  by (induction d) auto

lemma map_of_convert_step:
  "map_of (convert_step (k, v) d) =
     (if v = JStr ''true'' then (map_of d)(k \<mapsto> JBool True)
      else if v = JStr ''false'' then (map_of d)(k \<mapsto> JBool False)
      else map_of d)"
  by (simp add: convert_step_def map_of_dict_set)

lemma keys_convert_step:
  "k \<in> fst ` set d \<Longrightarrow> map fst (convert_step (k, v) d) = map fst d"
  by (simp add: convert_step_def keys_dict_set)

lemma map_of_fold_convert:
  "distinct (map fst xs) \<Longrightarrow>
   map_of (fold convert_step xs d) k =
     (case map_of xs k of
        None \<Rightarrow> map_of d k
      | Some v \<Rightarrow>
          if v = JStr ''true'' then Some (JBool True)
          else if v = JStr ''false'' then Some (JBool False)
          else map_of d k)"
proof (induction xs arbitrary: d)
  case Nil
  then show ?case by simp
next
  case (Cons x xs)
  obtain k' v' where x: "x = (k', v')" by (cases x)
  from Cons.prems x have notin: "map_of xs k' = None" and dist: "distinct (map fst xs)"
    by (auto simp: map_of_eq_None_iff)
  show ?case
    using Cons.IH [OF dist, of "convert_step x d"] notin
    by (auto simp: x map_of_convert_step split: option.splits)
qed

lemma keys_fold_convert:
  "fst ` set xs \<subseteq> fst ` set d \<Longrightarrow> map fst (fold convert_step xs d) = map fst d"
proof (induction xs arbitrary: d)
  case Nil
  then show ?case by simp
next
  case (Cons x xs)
  obtain k v where x: "x = (k, v)" by (cases x)
  from Cons.prems x have k: "k \<in> fst ` set d" by auto
  have keys: "map fst (convert_step x d) = map fst d"
    using k by (simp add: x keys_convert_step)
  then have "fst ` set (convert_step x d) = fst ` set d"
    by (metis list.set_map)
  with Cons.prems have "fst ` set xs \<subseteq> fst ` set (convert_step x d)" by auto
  from Cons.IH [OF this] keys show ?case by simp
qed

lemma convert_boolean_strings_lookup:
  "distinct (map fst d) \<Longrightarrow>
   map_of (convert_boolean_strings d) k =
     map_option (\<lambda>v. if v = JStr ''true'' then JBool True
                      else if v = JStr ''false'' then JBool False else v) (map_of d k)"
  by (simp add: convert_boolean_strings_def map_of_fold_convert split: option.splits)

lemma convert_boolean_strings_keys:
  "map fst (convert_boolean_strings d) = map fst d"
  by (simp add: convert_boolean_strings_def keys_fold_convert)

lemma osd_status_check_loaded:
  "executable_path conn ''ceph'' = Inr exe \<Longrightarrow>
   process_check conn [exe, ''--cluster='' @ cluster, ''osd'', ''stat'', ''--format=json'']
     = Inr (Some (out, err, code)) \<Longrightarrow>
   json_loads env (concat out) = Some (JDict d) \<Longrightarrow>
   osd_status_check env conn cluster t =
     (Inr (convert_boolean_strings d),
      t @ [ProcessCheck (conn_hostname conn)
             [exe, ''--cluster='' @ cluster, ''osd'', ''stat'', ''--format=json'']])"
  by (simp add: osd_status_check_def remoto_process_check_def unpack3_def load_json_def
        io_defs Let_def)

lemma osd_tree_loaded:
  "executable_path conn ''ceph'' = Inr exe \<Longrightarrow>
   process_check conn [exe, ''--cluster='' @ cluster, ''osd'', ''tree'', ''--format=json'']
     = Inr (Some (out, err, code)) \<Longrightarrow>
   json_loads env (concat out) = Some (JDict d) \<Longrightarrow>
   osd_tree env conn cluster t =
     (Inr (convert_boolean_strings d),
      t @ [ProcessCheck (conn_hostname conn)
             [exe, ''--cluster='' @ cluster, ''osd'', ''tree'', ''--format=json'']])"
  by (simp add: osd_tree_def remoto_process_check_def unpack3_def load_json_def
        io_defs Let_def)

lemma osd_status_check_none:
  "executable_path conn ''ceph'' = Inr exe \<Longrightarrow>
   process_check conn [exe, ''--cluster='' @ cluster, ''osd'', ''stat'', ''--format=json'']
     = Inr None \<Longrightarrow>
   osd_status_check env conn cluster t =
     (Inr [],
      t @ [ProcessCheck (conn_hostname conn)
             [exe, ''--cluster='' @ cluster, ''osd'', ''stat'', ''--format=json'']])"
  by (simp add: osd_status_check_def remoto_process_check_def unpack3_def load_json_def
        io_defs Let_def is_TypeError_def)

lemma catch_osd_errors_trace:
  assumes "osd_status_check env conn (args_cluster args)
             (t @ [Log logger INFO ''checking OSD status...'']) = (Inr status, t')"
    and "py_int (int_of_str env) (dict_get status ''num_osds'' (JInt 0)) = Inr osds"
    and "py_int (int_of_str env) (dict_get status ''num_up_osds'' (JInt 0)) = Inr up_osds"
    and "py_int (int_of_str env) (dict_get status ''num_in_osds'' (JInt 0)) = Inr in_osds"
  shows "catch_osd_errors env conn logger args t =
     (Inr (), t'
        @ (if osds > up_osds
           then [Log logger WARNING (count_warning (osds - up_osds) ''down'')] else [])
        @ (if osds > in_osds
           then [Log logger WARNING (count_warning (osds - in_osds) ''out'')] else [])
        @ (if truthy (dict_get status ''full'' (JBool False))
           then [Log logger WARNING ''OSDs are full!''] else [])
        @ (if truthy (dict_get status ''nearfull'' (JBool False))
           then [Log logger WARNING ''OSDs are near full!''] else []))"
  using assms by (simp add: catch_osd_errors_def io_defs Let_def)


lemmas example_defs = timeout_conn_def stat_conn_def mon_conn_def osd_conn_def
  example_distro_def example_env_def example_args_def

text \<open>
  C8. When the local key file \<^verbatim>\<open><cluster>.bootstrap-osd.keyring\<close> cannot be opened,
  \<^verbatim>\<open>prepare\<close> ends at once with the RuntimeError of \<^verbatim>\<open>get_bootstrap_osd_key\<close>: the
  only thing it has done is its first debug line, so no session was opened with any
  host, and the error is neither logged as a host's failure nor turned into the
  counted GenericError.
\<close>

theorem prepare_missing_key:
  "open_rb env (args_cluster args @ ''.bootstrap-osd.keyring'') = None \<Longrightarrow>
   prepare env args create t =
     (Inl (RuntimeError (''bootstrap-osd keyring not found; run '' @ [CHR 0x27]
             @ ''gatherkeys'' @ [CHR 0x27])),
      t @ [Log ModuleLOG DEBUG (''Preparing cluster '' @ args_cluster args
             @ '' on data device '' @ str_opt (args_data args))])"
  by (simp add: prepare_def get_bootstrap_osd_key_def io_defs)

theorem prepare_missing_key_witness:
  "open_rb (example_env []) (args_cluster ((example_args ''node1'')\<lparr>args_cluster := ''backup''\<rparr>)
      @ ''.bootstrap-osd.keyring'') = None
   \<and> prepare (example_env []) ((example_args ''node1'')\<lparr>args_cluster := ''backup''\<rparr>) False [] =
     (Inl (RuntimeError (''bootstrap-osd keyring not found; run '' @ [CHR 0x27]
             @ ''gatherkeys'' @ [CHR 0x27])),
      [Log ModuleLOG DEBUG ''Preparing cluster backup on data device /dev/sdb''])"
  using prepare_missing_key
    [of "example_env []" "(example_args ''node1'')\<lparr>args_cluster := ''backup''\<rparr>" False "[]"]
  by (simp add: example_defs str_opt_def)

text \<open>
  C7. On a host where the keyring path already exists, \<^verbatim>\<open>create_osd_keyring\<close> does
  nothing: no warning, no write, the trace is unchanged. So calling it twice in a row
  is the same as calling it once.
\<close>

theorem create_osd_keyring_idempotent:
  "fst (path_exists conn (''/var/lib/ceph/bootstrap-osd/'' @ cluster @ ''.keyring'') t) = Inr True \<Longrightarrow>
   create_osd_keyring conn cluster key t = (Inr (), t)
   \<and> bnd (create_osd_keyring conn cluster key) (\<lambda>_. create_osd_keyring conn cluster key) t
       = create_osd_keyring conn cluster key t"
  by (auto simp: create_osd_keyring_def path_exists_def io_defs Let_def)

theorem create_osd_keyring_idempotent_witness:
  "fst (path_exists timeout_conn (''/var/lib/ceph/bootstrap-osd/'' @ ''ceph'' @ ''.keyring'')
      [WriteKeyring ''node1'' ''/var/lib/ceph/bootstrap-osd/ceph.keyring'' ''[client.bootstrap-osd]''])
     = Inr True
   \<and> create_osd_keyring timeout_conn ''ceph'' ''[client.bootstrap-osd]''
       [WriteKeyring ''node1'' ''/var/lib/ceph/bootstrap-osd/ceph.keyring'' ''[client.bootstrap-osd]'']
     = (Inr (),
       [WriteKeyring ''node1'' ''/var/lib/ceph/bootstrap-osd/ceph.keyring'' ''[client.bootstrap-osd]''])"
  using create_osd_keyring_idempotent
    [of timeout_conn "''ceph''"
       "[WriteKeyring ''node1'' ''/var/lib/ceph/bootstrap-osd/ceph.keyring'' ''[client.bootstrap-osd]'']"
       "''[client.bootstrap-osd]''"]
  by (simp add: path_exists_def written_def example_defs)

text \<open>
  C4. When \<^verbatim>\<open>remoto.process.check\<close> returns \<open>None\<close> (the other end timed out),
  \<^verbatim>\<open>osd_status_check\<close> returns the empty dict without raising, and
  \<^verbatim>\<open>catch_osd_errors\<close> on top of it logs its info line and no warning.
\<close>

theorem status_check_timeout:
  "executable_path conn ''ceph'' = Inr exe \<Longrightarrow>
   process_check conn [exe, ''--cluster='' @ args_cluster args, ''osd'', ''stat'', ''--format=json'']
     = Inr None \<Longrightarrow>
   osd_status_check env conn (args_cluster args) t =
     (Inr [],
      t @ [ProcessCheck (conn_hostname conn)
             [exe, ''--cluster='' @ args_cluster args, ''osd'', ''stat'', ''--format=json'']])
   \<and> catch_osd_errors env conn logger args t =
     (Inr (),
      t @ [Log logger INFO ''checking OSD status...'',
           ProcessCheck (conn_hostname conn)
             [exe, ''--cluster='' @ args_cluster args, ''osd'', ''stat'', ''--format=json'']])"
proof -
  assume exe: "executable_path conn ''ceph'' = Inr exe"
    and none: "process_check conn
      [exe, ''--cluster='' @ args_cluster args, ''osd'', ''stat'', ''--format=json''] = Inr None"
  have st: "osd_status_check env conn (args_cluster args) u =
     (Inr [], u @ [ProcessCheck (conn_hostname conn)
             [exe, ''--cluster='' @ args_cluster args, ''osd'', ''stat'', ''--format=json'']])"
    for u
    using exe none by (rule osd_status_check_none)
  have "catch_osd_errors env conn logger args t =
     (Inr (), (t @ [Log logger INFO ''checking OSD status...'']) @ [ProcessCheck (conn_hostname conn)
             [exe, ''--cluster='' @ args_cluster args, ''osd'', ''stat'', ''--format=json'']]
        @ [] @ [] @ [] @ [])"
    using catch_osd_errors_trace [of env conn args t logger "[]" _ 0 0 0] st
    by (simp add: dict_get_def)
  with st show ?thesis by simp
qed

theorem status_check_timeout_witness:
  "executable_path timeout_conn ''ceph'' = Inr ''/usr/bin/ceph''
   \<and> process_check timeout_conn
       [''/usr/bin/ceph'', ''--cluster='' @ args_cluster (example_args ''node1''), ''osd'', ''stat'',
        ''--format=json''] = Inr None
   \<and> osd_status_check (example_env []) timeout_conn (args_cluster (example_args ''node1'')) [] =
     (Inr [],
      [ProcessCheck ''node1'' [''/usr/bin/ceph'', ''--cluster=ceph'', ''osd'', ''stat'', ''--format=json'']])
   \<and> catch_osd_errors (example_env []) timeout_conn (ConnLogger ''node1'') (example_args ''node1'') [] =
     (Inr (),
      [Log (ConnLogger ''node1'') INFO ''checking OSD status...'',
       ProcessCheck ''node1'' [''/usr/bin/ceph'', ''--cluster=ceph'', ''osd'', ''stat'', ''--format=json'']])"
  using status_check_timeout
    [of timeout_conn "''/usr/bin/ceph''" "example_args ''node1''" "example_env []" "[]"
        "ConnLogger ''node1''"]
  by (simp add: example_defs)

text \<open>
  C5. The conversion run by \<^verbatim>\<open>osd_status_check\<close> and \<^verbatim>\<open>osd_tree\<close> on the loaded dict
  keeps the keys, maps a value that is the string \<^verbatim>\<open>"true"\<close> to \<open>True\<close> and the string
  \<^verbatim>\<open>"false"\<close> to \<open>False\<close>, and leaves every other value as it is; and the converted
  dict is what both functions return when the output loads to a dict. (The keys of a
  Python dict are distinct.)
\<close>

theorem boolean_strings_normalized:
  "(distinct (map fst d) \<longrightarrow>
      map fst (convert_boolean_strings d) = map fst d
      \<and> (\<forall>k v. map_of d k = Some v \<longrightarrow>
             map_of (convert_boolean_strings d) k =
               Some (if v = JStr ''true'' then JBool True
                     else if v = JStr ''false'' then JBool False
                     else v)))
   \<and> (executable_path conn ''ceph'' = Inr exe
        \<and> process_check conn [exe, ''--cluster='' @ cluster, ''osd'', ''stat'', ''--format=json'']
            = Inr (Some (out, err, code))
        \<and> json_loads env (concat out) = Some (JDict d) \<longrightarrow>
      fst (osd_status_check env conn cluster t) = Inr (convert_boolean_strings d))
   \<and> (executable_path conn ''ceph'' = Inr exe
        \<and> process_check conn [exe, ''--cluster='' @ cluster, ''osd'', ''tree'', ''--format=json'']
            = Inr (Some (out, err, code))
        \<and> json_loads env (concat out) = Some (JDict d) \<longrightarrow>
      fst (osd_tree env conn cluster t) = Inr (convert_boolean_strings d))"
  by (simp add: convert_boolean_strings_lookup convert_boolean_strings_keys
        osd_status_check_loaded osd_tree_loaded)

theorem boolean_strings_normalized_witness:
  "distinct (map fst [(''full'', JStr ''true''), (''nearfull'', JStr ''false''),
                      (''num_in_osds'', JStr ''1''), (''num_osds'', JInt 1)])
   \<and> map_of (convert_boolean_strings
         [(''full'', JStr ''true''), (''nearfull'', JStr ''false''),
          (''num_in_osds'', JStr ''1''), (''num_osds'', JInt 1)]) ''full'' = Some (JBool True)
   \<and> map_of (convert_boolean_strings
         [(''full'', JStr ''true''), (''nearfull'', JStr ''false''),
          (''num_in_osds'', JStr ''1''), (''num_osds'', JInt 1)]) ''nearfull'' = Some (JBool False)
   \<and> map_of (convert_boolean_strings
         [(''full'', JStr ''true''), (''nearfull'', JStr ''false''),
          (''num_in_osds'', JStr ''1''), (''num_osds'', JInt 1)]) ''num_in_osds'' = Some (JStr ''1'')
   \<and> map fst (convert_boolean_strings
         [(''full'', JStr ''true''), (''nearfull'', JStr ''false''),
          (''num_in_osds'', JStr ''1''), (''num_osds'', JInt 1)])
       = [''full'', ''nearfull'', ''num_in_osds'', ''num_osds'']
   \<and> executable_path (stat_conn ''3'') ''ceph'' = Inr ''/usr/bin/ceph''
   \<and> process_check (stat_conn ''3'')
         [''/usr/bin/ceph'', ''--cluster='' @ ''ceph'', ''osd'', ''stat'', ''--format=json'']
       = Inr (Some ([stat_text ''3''], [], 0))
   \<and> json_loads (example_env []) (concat [stat_text ''3'']) = Some (JDict (stat_dict 3))
   \<and> fst (osd_status_check (example_env []) (stat_conn ''3'') ''ceph'' []) =
       Inr [(''epoch'', JInt 8), (''num_osds'', JInt 5), (''num_up_osds'', JInt 3),
            (''num_in_osds'', JStr ''5''), (''full'', JBool False), (''nearfull'', JBool False)]
   \<and> executable_path mon_conn ''ceph'' = Inr ''/usr/bin/ceph''
   \<and> process_check mon_conn
         [''/usr/bin/ceph'', ''--cluster='' @ ''ceph'', ''osd'', ''tree'', ''--format=json'']
       = Inr (Some ([tree_text], [], 0))
   \<and> json_loads (example_env []) (concat [tree_text]) = Some (JDict tree_dict)
   \<and> fst (osd_tree (example_env []) mon_conn ''ceph'' []) = Inr tree_dict"
  using boolean_strings_normalized
    [of "[(''full'', JStr ''true''), (''nearfull'', JStr ''false''),
          (''num_in_osds'', JStr ''1''), (''num_osds'', JInt 1)]"
        "stat_conn ''3''" "''/usr/bin/ceph''" "''ceph''" "[stat_text ''3'']" "[]" 0
        "example_env []" "[]"]
    boolean_strings_normalized
    [of "stat_dict 3" "stat_conn ''3''" "''/usr/bin/ceph''" "''ceph''" "[stat_text ''3'']" "[]" 0
        "example_env []" "[]"]
    boolean_strings_normalized
    [of tree_dict mon_conn "''/usr/bin/ceph''" "''ceph''" "[tree_text]" "[]" 0
        "example_env []" "[]"]
  by (simp add: example_defs stat_dict_def tree_dict_def stat_text_def tree_text_def quoted_def
        convert_boolean_strings_def convert_step_def)

lemma str_of_int_1: "str_of_int 1 = ''1''"
  by (simp add: str_of_int_def str_of_nat.simps)

lemma count_warning_down:
  "count_warning d ''down'' =
     (if d = 1 then ''there is 1 OSD down''
      else ''there are '' @ str_of_int d @ '' OSDs down'')"
  by (simp add: count_warning_def str_of_int_1)

text \<open>
  C6. When the status has more OSDs than OSDs that are up, the first thing
  \<^verbatim>\<open>catch_osd_errors\<close> logs after the status check is the warning about the
  difference: \<^verbatim>\<open>there is 1 OSD down\<close> when the difference is 1, and
  \<^verbatim>\<open>there are N OSDs down\<close> otherwise.
\<close>

theorem down_warning_number:
  assumes "osd_status_check env conn (args_cluster args)
             (t @ [Log logger INFO ''checking OSD status...'']) = (Inr status, t')"
    and "py_int (int_of_str env) (dict_get status ''num_osds'' (JInt 0)) = Inr osds"
    and "py_int (int_of_str env) (dict_get status ''num_up_osds'' (JInt 0)) = Inr up_osds"
    and "py_int (int_of_str env) (dict_get status ''num_in_osds'' (JInt 0)) = Inr in_osds"
    and "osds > up_osds"
  shows "\<exists>rest. catch_osd_errors env conn logger args t =
     (Inr (),
      t' @ Log logger WARNING
             (if osds - up_osds = 1 then ''there is 1 OSD down''
              else ''there are '' @ str_of_int (osds - up_osds) @ '' OSDs down'') # rest)"
  using catch_osd_errors_trace [OF assms(1-4)] assms(5)
  by (simp add: count_warning_down)

theorem down_warning_number_witness:
  "osd_status_check (example_env []) (stat_conn ''3'') (args_cluster (example_args ''node3''))
       ([] @ [Log (ConnLogger ''node3'') INFO ''checking OSD status...''])
     = (Inr [(''epoch'', JInt 8), (''num_osds'', JInt 5), (''num_up_osds'', JInt 3),
             (''num_in_osds'', JStr ''5''), (''full'', JBool False), (''nearfull'', JBool False)],
        [Log (ConnLogger ''node3'') INFO ''checking OSD status...'',
         ProcessCheck ''node3'' [''/usr/bin/ceph'', ''--cluster=ceph'', ''osd'', ''stat'', ''--format=json'']])
   \<and> py_int (int_of_str (example_env [])) (JInt 5) = Inr 5
   \<and> py_int (int_of_str (example_env [])) (JInt 3) = Inr 3
   \<and> py_int (int_of_str (example_env [])) (JStr ''5'') = Inr 5
   \<and> (5::int) > 3
   \<and> catch_osd_errors (example_env []) (stat_conn ''3'') (ConnLogger ''node3'') (example_args ''node3'') []
     = (Inr (),
        [Log (ConnLogger ''node3'') INFO ''checking OSD status...'',
         ProcessCheck ''node3'' [''/usr/bin/ceph'', ''--cluster=ceph'', ''osd'', ''stat'', ''--format=json''],
         Log (ConnLogger ''node3'') WARNING ''there are 2 OSDs down''])
   \<and> (5::int) > 4
   \<and> catch_osd_errors (example_env []) (stat_conn ''4'') (ConnLogger ''node3'') (example_args ''node3'') []
     = (Inr (),
        [Log (ConnLogger ''node3'') INFO ''checking OSD status...'',
         ProcessCheck ''node3'' [''/usr/bin/ceph'', ''--cluster=ceph'', ''osd'', ''stat'', ''--format=json''],
         Log (ConnLogger ''node3'') WARNING ''there is 1 OSD down''])"
  using down_warning_number
    [of "example_env []" "stat_conn ''3''" "example_args ''node3''" "[]" "ConnLogger ''node3''"
        "convert_boolean_strings (stat_dict 3)"
        "[Log (ConnLogger ''node3'') INFO ''checking OSD status...'',
          ProcessCheck ''node3'' [''/usr/bin/ceph'', ''--cluster=ceph'', ''osd'', ''stat'', ''--format=json'']]"
        5 3 5]
    down_warning_number
    [of "example_env []" "stat_conn ''4''" "example_args ''node3''" "[]" "ConnLogger ''node3''"
        "convert_boolean_strings (stat_dict 4)"
        "[Log (ConnLogger ''node3'') INFO ''checking OSD status...'',
          ProcessCheck ''node3'' [''/usr/bin/ceph'', ''--cluster=ceph'', ''osd'', ''stat'', ''--format=json'']]"
        5 4 5]
  by (simp add: example_defs stat_dict_def stat_text_def quoted_def
        convert_boolean_strings_def convert_step_def dict_get_def
        osd_status_check_def remoto_process_check_def unpack3_def load_json_def is_TypeError_def
        catch_osd_errors_def count_warning_def str_of_int_def str_of_nat.simps
        io_defs Let_def)

subsection \<open>Preparing a disk\<close>

text \<open>
  C1. A request for \<^verbatim>\<open>filestore\<close> without a journal never reaches
  \<^verbatim>\<open>remoto.process.run\<close>: \<^verbatim>\<open>prepare_disk\<close> raises with the trace unchanged. The
  exception is the RuntimeError about the journal only when neither \<^verbatim>\<open>zap\<close> nor
  \<^verbatim>\<open>dmcrypt\<close> is set; with either of them set, the unbound name \<^verbatim>\<open>logger\<close> raises
  NameError before the journal is looked at.
\<close>

theorem prepare_disk_filestore_without_journal:
  "storetype = ''filestore'' \<Longrightarrow> falsy journal \<Longrightarrow>
   executable_path conn ''ceph-volume'' = Inr exe \<Longrightarrow>
   prepare_disk conn cluster data journal zap fs_type dmcrypt dmcrypt_dir storetype
       block_wal block_db create t =
     (Inl (if zap \<or> dmcrypt then logger_unbound
           else RuntimeError
                  ''A journal lv or GPT partition must be specified when using filestore''),
      t)"
  by (simp add: prepare_disk_def io_defs Let_def)

theorem prepare_disk_filestore_without_journal_witness:
  "''filestore'' = ''filestore'' \<and> falsy None
   \<and> executable_path timeout_conn ''ceph-volume'' = Inr ''/usr/bin/ceph-volume''
   \<and> prepare_disk timeout_conn ''ceph'' ''/dev/sdb'' None True ''xfs'' False
         ''/etc/ceph/dmcrypt-keys'' ''filestore'' None None False [] =
       (Inl (NameError (''name '' @ [CHR 0x27] @ ''logger'' @ [CHR 0x27] @ '' is not defined'')), [])
   \<and> prepare_disk timeout_conn ''ceph'' ''/dev/sdb'' None False ''xfs'' False
         ''/etc/ceph/dmcrypt-keys'' ''filestore'' None None False [] =
       (Inl (RuntimeError
               ''A journal lv or GPT partition must be specified when using filestore''), [])"
  using prepare_disk_filestore_without_journal
    [of "''filestore''" None timeout_conn "''/usr/bin/ceph-volume''" "''ceph''" "''/dev/sdb''"
        True "''xfs''" False "''/etc/ceph/dmcrypt-keys''" None None False "[]"]
    prepare_disk_filestore_without_journal
    [of "''filestore''" None timeout_conn "''/usr/bin/ceph-volume''" "''ceph''" "''/dev/sdb''"
        False "''xfs''" False "''/etc/ceph/dmcrypt-keys''" None None False "[]"]
  by (simp add: example_defs falsy_def logger_unbound_def)

lemma prepare_disk_never_dispatches_without_journal:
  "storetype = ''filestore'' \<Longrightarrow> falsy journal \<Longrightarrow>
   \<exists>e. prepare_disk conn cluster data journal zap fs_type dmcrypt dmcrypt_dir storetype
          block_wal block_db create t = (Inl e, t)"
  by (cases "executable_path conn ''ceph-volume''")
     (simp_all add: prepare_disk_def io_defs Let_def)

text \<open>
  C3. With the zap flag set \<^verbatim>\<open>prepare_disk\<close> does not get as far as a warning:
  \<^verbatim>\<open>logger.warning(...)\<close> raises NameError, nothing is logged and no command is
  dispatched. With the flag unset (here for bluestore without WAL and DB devices) the
  command is dispatched.
\<close>

theorem prepare_disk_zap_raises:
  "executable_path conn ''ceph-volume'' = Inr exe \<Longrightarrow>
   prepare_disk conn cluster data journal True fs_type dmcrypt dmcrypt_dir storetype
       block_wal block_db create t = (Inl logger_unbound, t)
   \<and> (\<not> dmcrypt \<and> storetype = ''bluestore'' \<and> falsy block_wal \<and> falsy block_db \<longrightarrow>
      prepare_disk conn cluster data journal False fs_type dmcrypt dmcrypt_dir storetype
         block_wal block_db create t =
        (case process_run conn
                [exe, ''--cluster'', cluster, ''lvm'', if create then ''create'' else ''prepare'',
                 ''--bluestore'', ''--data'', data] of
           None \<Rightarrow> Inr () | Some e \<Rightarrow> Inl e,
         t @ [ProcessRun (conn_hostname conn)
                [exe, ''--cluster'', cluster, ''lvm'', if create then ''create'' else ''prepare'',
                 ''--bluestore'', ''--data'', data]]))"
  by (auto simp: prepare_disk_def remoto_process_run_def io_defs Let_def split: option.splits)

theorem prepare_disk_zap_raises_witness:
  "executable_path timeout_conn ''ceph-volume'' = Inr ''/usr/bin/ceph-volume''
   \<and> prepare_disk timeout_conn ''ceph'' ''/dev/sdb'' None True ''xfs'' False
         ''/etc/ceph/dmcrypt-keys'' ''bluestore'' None None False [] =
       (Inl (NameError (''name '' @ [CHR 0x27] @ ''logger'' @ [CHR 0x27] @ '' is not defined'')), [])
   \<and> \<not> False \<and> ''bluestore'' = ''bluestore'' \<and> falsy None
   \<and> prepare_disk timeout_conn ''ceph'' ''/dev/sdb'' None False ''xfs'' False
         ''/etc/ceph/dmcrypt-keys'' ''bluestore'' None None False [] =
       (Inr (),
        [ProcessRun ''node1''
           [''/usr/bin/ceph-volume'', ''--cluster'', ''ceph'', ''lvm'', ''prepare'', ''--bluestore'',
            ''--data'', ''/dev/sdb'']])"
  using prepare_disk_zap_raises
    [of timeout_conn "''/usr/bin/ceph-volume''" "''ceph''" "''/dev/sdb''" None "''xfs''" False
        "''/etc/ceph/dmcrypt-keys''" "''bluestore''" None None False "[]"]
  by (simp add: example_defs falsy_def logger_unbound_def)

subsection \<open>Preparing a host\<close>

lemma sessions_append [simp]: "sessions (t @ u) = sessions t @ sessions u"
  by (simp add: sessions_def)

lemma sessions_single [simp]:
  "sessions [ev] = (case ev of HostsGet h \<Rightarrow> [h] | _ \<Rightarrow> [])"
  by (simp add: sessions_def)

lemma sessions_ret [simp]: "sessions (snd (ret x t)) = sessions t"
  by (simp add: ret_def)

lemma sessions_throw [simp]: "sessions (snd (throw e t)) = sessions t"
  by (simp add: throw_def)

lemma sessions_lift [simp]: "sessions (snd (lift r t)) = sessions t"
  by (simp add: lift_def)

lemma sessions_emit [simp]: "sessions (snd (emit ev t)) = sessions t @ sessions [ev]"
  by (simp add: emit_def)

lemma sessions_bnd [simp]:
  assumes "\<And>t. sessions (snd (m t)) = sessions t"
    and "\<And>x t. sessions (snd (f x t)) = sessions t"
  shows "sessions (snd (bnd m f t)) = sessions t"
proof (cases "m t")
  case (Pair r t')
  with assms(1) [of t] have t': "sessions t' = sessions t" by simp
  show ?thesis
  proof (cases r)
    case (Inl e)
    with Pair t' show ?thesis by (simp add: bnd_def)
  next
    case (Inr x)
    with Pair t' assms(2) [of x t'] show ?thesis by (simp add: bnd_def)
  qed
qed

lemma sessions_try_except [simp]:
  assumes "\<And>t. sessions (snd (m t)) = sessions t"
    and "\<And>e t. sessions (snd (h e t)) = sessions t"
  shows "sessions (snd (try_except m c h t)) = sessions t"
proof (cases "m t")
  case (Pair r t')
  with assms(1) [of t] have t': "sessions t' = sessions t" by simp
  show ?thesis
  proof (cases r)
    case (Inl e)
    with Pair t' assms(2) [of e t'] show ?thesis by (simp add: try_except_def)
  next
    case (Inr x)
    with Pair t' show ?thesis by (simp add: try_except_def)
  qed
qed

lemma sessions_log_msg [simp]: "sessions (snd (log_msg lg lvl msg t)) = sessions t"
  by (simp add: log_msg_def)

lemma sessions_path_exists [simp]: "sessions (snd (path_exists conn path t)) = sessions t"
  by (simp add: path_exists_def)

lemma sessions_write_keyring [simp]:
  "sessions (snd (write_keyring conn path key t)) = sessions t"
  by (simp add: write_keyring_def)

lemma sessions_create_osd_keyring [simp]:
  "sessions (snd (create_osd_keyring conn cluster key t)) = sessions t"
  by (simp add: create_osd_keyring_def Let_def)

lemma sessions_remote_write_conf [simp]:
  "sessions (snd (remote_write_conf conn cluster conf_data overwrite t)) = sessions t"
  by (simp add: remote_write_conf_def split: option.splits)

lemma sessions_remoto_process_run [simp]:
  "sessions (snd (remoto_process_run conn argv t)) = sessions t"
  by (simp add: remoto_process_run_def split: option.splits)

lemma sessions_remoto_process_check [simp]:
  "sessions (snd (remoto_process_check conn command t)) = sessions t"
  by (simp add: remoto_process_check_def)

lemma sessions_unpack3 [simp]: "sessions (snd (unpack3 r t)) = sessions t"
  by (cases r) (simp_all add: unpack3_def)

lemma sessions_load_json [simp]: "sessions (snd (load_json env out t)) = sessions t"
  by (simp add: load_json_def split: option.splits json.splits)

lemma sessions_osd_status_check [simp]:
  "sessions (snd (osd_status_check env conn cluster t)) = sessions t"
  by (simp add: osd_status_check_def Let_def split: option.splits prod.splits)

lemma sessions_catch_osd_errors [simp]:
  "sessions (snd (catch_osd_errors env conn logger args t)) = sessions t"
  by (simp add: catch_osd_errors_def Let_def)

lemma sessions_prepare_disk [simp]:
  "sessions (snd (prepare_disk conn cluster data journal zap fs_type dmcrypt dmcrypt_dir
      storetype block_wal block_db create t)) = sessions t"
  by (simp add: prepare_disk_def Let_def)

lemma sessions_hosts_get_io [simp]:
  "sessions (snd (hosts_get_io env hostname t)) = sessions t @ [hostname]"
  by (simp add: hosts_get_io_def bnd_def emit_def lift_def)


lemma sessions_bnd_cont:
  assumes "\<And>x t. sessions (snd (f x t)) = sessions t"
  shows "sessions (snd (bnd m f t)) = sessions (snd (m t))"
proof (cases "m t")
  case (Pair r t')
  show ?thesis
  proof (cases r)
    case (Inl e)
    with Pair show ?thesis by (simp add: bnd_def)
  next
    case (Inr x)
    with Pair assms [of x t'] show ?thesis by (simp add: bnd_def)
  qed
qed

lemma sessions_try_except_cont:
  assumes "\<And>e t. sessions (snd (h e t)) = sessions t"
  shows "sessions (snd (try_except m c h t)) = sessions (snd (m t))"
proof (cases "m t")
  case (Pair r t')
  show ?thesis
  proof (cases r)
    case (Inl e)
    with Pair assms [of e t'] show ?thesis by (simp add: try_except_def)
  next
    case (Inr x)
    with Pair show ?thesis by (simp add: try_except_def)
  qed
qed

lemma bnd_log_msg: "bnd (log_msg lg lvl msg) f t = f () (t @ [Log lg lvl msg])"
  by (simp add: bnd_def log_msg_def emit_def)

lemma bnd_lift: "bnd (lift r) f t = (case r of Inl e \<Rightarrow> (Inl e, t) | Inr x \<Rightarrow> f x t)"
  by (simp add: bnd_def lift_def split: sum.splits)

lemma sessions_prepare_try:
  "sessions (snd (prepare_try env args create key t)) =
     sessions t @ (case args_data args of None \<Rightarrow> [] | Some data \<Rightarrow> [args_host args])"
proof (cases "args_data args")
  case None
  then show ?thesis by (simp add: prepare_try_def)
next
  case (Some data)
  then show ?thesis
    by (simp add: prepare_try_def Let_def sessions_bnd_cont [where m = "hosts_get_io env (args_host args)"])
qed

lemma sessions_prepare:
  "sessions (snd (prepare env args create t)) =
     sessions t @
       (case get_bootstrap_osd_key env (args_cluster args) of
          Inl e \<Rightarrow> []
        | Inr key \<Rightarrow> (case args_data args of None \<Rightarrow> [] | Some data \<Rightarrow> [args_host args]))"
proof (cases "get_bootstrap_osd_key env (args_cluster args)")
  case (Inl e)
  then show ?thesis by (simp add: prepare_def bnd_log_msg bnd_lift)
next
  case (Inr key)
  have "sessions (snd (prepare env args create t)) =
        sessions (snd (prepare_try env args create key
          (t @ [Log ModuleLOG DEBUG (''Preparing cluster '' @ args_cluster args
                  @ '' on data device '' @ str_opt (args_data args))])))"
    using Inr
    by (simp add: prepare_def bnd_log_msg bnd_lift Let_def sessions_bnd_cont
          sessions_try_except_cont)
  with Inr show ?thesis by (simp add: sessions_prepare_try)
qed

lemma prepare_counts_failure:
  assumes "get_bootstrap_osd_key env (args_cluster args) = Inr key"
    and "prepare_try env args create key
           (t @ [Log ModuleLOG DEBUG (''Preparing cluster '' @ args_cluster args
                   @ '' on data device '' @ str_opt (args_data args))]) = (Inl e, t')"
    and "is_RuntimeError env e"
  shows "prepare env args create t =
     (Inl (ExcError ''GenericError'' ''Failed to create 1 OSDs''),
      t' @ [Log ModuleLOG ERROR (exn_str e)])"
  using assms
  by (simp add: prepare_def Let_def io_defs str_of_int_def str_of_nat.simps)

lemmas run_defs = prepare_def prepare_try_def prepare_disk_def catch_osd_errors_def
  osd_status_check_def osd_tree_def load_json_def create_osd_keyring_def
  get_bootstrap_osd_key_def hosts_get_io_def remote_write_conf_def remoto_process_run_def
  remoto_process_check_def unpack3_def path_exists_def write_keyring_def written_def
  is_RuntimeError_def is_TypeError_def falsy_def str_opt_def dict_get_def
  str_of_int_def str_of_nat.simps count_warning_def
  convert_boolean_strings_def convert_step_def io_defs Let_def

text \<open>
  C2 (as amended). \<^verbatim>\<open>prepare\<close> works on the one host \<^verbatim>\<open>args.host\<close>: a call opens at
  most one session, with that host. When the \<^verbatim>\<open>try\<close> block for the host raises a
  RuntimeError, the error is logged and counted, and the call ends with
  \<^verbatim>\<open>GenericError('Failed to create 1 OSDs')\<close>.
\<close>

theorem prepare_single_host:
  "(sessions (snd (prepare env args create t)) = sessions t
      \<or> sessions (snd (prepare env args create t)) = sessions t @ [args_host args])
   \<and> (get_bootstrap_osd_key env (args_cluster args) = Inr key
        \<and> prepare_try env args create key
             (t @ [Log ModuleLOG DEBUG (''Preparing cluster '' @ args_cluster args
                     @ '' on data device '' @ str_opt (args_data args))]) = (Inl e, t')
        \<and> is_RuntimeError env e \<longrightarrow>
      prepare env args create t =
        (Inl (ExcError ''GenericError'' ''Failed to create 1 OSDs''),
         t' @ [Log ModuleLOG ERROR (exn_str e)]))"
  by (auto simp: sessions_prepare prepare_counts_failure split: sum.splits option.splits)

theorem prepare_single_host_witness:
  "sessions (snd (prepare failing_env (example_args ''node1'') False [])) = [] @ [Some ''node1'']
   \<and> get_bootstrap_osd_key failing_env ''ceph'' = Inr ''[client.bootstrap-osd]''
   \<and> prepare_try failing_env (example_args ''node1'') False ''[client.bootstrap-osd]''
        ([] @ [Log ModuleLOG DEBUG ''Preparing cluster ceph on data device /dev/sdb'']) =
       (Inl (RuntimeError ''command returned non-zero exit status: 1''),
        [Log ModuleLOG DEBUG ''Preparing cluster ceph on data device /dev/sdb'',
         HostsGet (Some ''node1''),
         Log ModuleLOG INFO ''Distro info: Ubuntu 18.04 bionic'',
         Log ModuleLOG DEBUG ''Deploying osd to node1'',
         WriteConf ''node1'' ''ceph'' ''[global]'' False,
         Log (ConnLogger ''node1'') WARNING ''osd keyring does not exist yet, creating one'',
         WriteKeyring ''node1'' ''/var/lib/ceph/bootstrap-osd/ceph.keyring''
           ''[client.bootstrap-osd]'',
         Log ModuleLOG DEBUG ''Preparing host node1 data /dev/sdb'',
         ProcessRun ''node1''
           [''/usr/bin/ceph-volume'', ''--cluster'', ''ceph'', ''lvm'', ''prepare'',
            ''--bluestore'', ''--data'', ''/dev/sdb'']])
   \<and> is_RuntimeError failing_env (RuntimeError ''command returned non-zero exit status: 1'')
   \<and> prepare failing_env (example_args ''node1'') False [] =
       (Inl (ExcError ''GenericError'' ''Failed to create 1 OSDs''),
        [Log ModuleLOG DEBUG ''Preparing cluster ceph on data device /dev/sdb'',
         HostsGet (Some ''node1''),
         Log ModuleLOG INFO ''Distro info: Ubuntu 18.04 bionic'',
         Log ModuleLOG DEBUG ''Deploying osd to node1'',
         WriteConf ''node1'' ''ceph'' ''[global]'' False,
         Log (ConnLogger ''node1'') WARNING ''osd keyring does not exist yet, creating one'',
         WriteKeyring ''node1'' ''/var/lib/ceph/bootstrap-osd/ceph.keyring''
           ''[client.bootstrap-osd]'',
         Log ModuleLOG DEBUG ''Preparing host node1 data /dev/sdb'',
         ProcessRun ''node1''
           [''/usr/bin/ceph-volume'', ''--cluster'', ''ceph'', ''lvm'', ''prepare'',
            ''--bluestore'', ''--data'', ''/dev/sdb''],
         Log ModuleLOG ERROR ''command returned non-zero exit status: 1''])"
  using prepare_single_host
    [of failing_env "example_args ''node1''" False "[]" "''[client.bootstrap-osd]''"
        "RuntimeError ''command returned non-zero exit status: 1''"]
  by (simp add: failing_env_def example_defs run_defs sessions_def)

text \<open>
  C2 as stated fails: a run whose host cannot be reached opens the one session and
  ends; there are no other two hosts that it goes on to.
\<close>

theorem prepare_batch_counterexample:
  "prepare (example_env []) (example_args ''node2'') False [] =
     (Inl (ExcError ''GenericError'' ''Failed to create 1 OSDs''),
      [Log ModuleLOG DEBUG ''Preparing cluster ceph on data device /dev/sdb'',
       HostsGet (Some ''node2''),
       Log ModuleLOG ERROR ''connecting to host resulted in errors''])
   \<and> sessions (snd (prepare (example_env []) (example_args ''node2'') False [])) = [Some ''node2'']
   \<and> length (sessions (snd (prepare (example_env []) (example_args ''node2'') False []))) \<noteq> 3"
  by (simp add: example_defs run_defs sessions_def)

subsection \<open>Listing the OSDs\<close>

text \<open>
  C9 (as amended). On the instance of the spec the record for OSD 1 has the device
  \<^verbatim>\<open>ceph\<close>, which is the second field of the line as \<^verbatim>\<open>re.split\<close> gives it, the
  status \<^verbatim>\<open>up\<close>, the reweight 1.0 and the metadata keys \<^verbatim>\<open>active\<close> and \<^verbatim>\<open>whoami\<close>.
  When the line starts with a space, as the lines of partitions in the listing do,
  the first field is empty and the device is \<^verbatim>\<open>/dev/sdb1\<close>.
\<close>

theorem osd_list_record:
  "osd_list (example_env ''/dev/sdb1 ceph data, active, cluster ceph, osd.1, journal /dev/sdb2'')
       (example_args ''node4'') [] =
     (Inr (),
      [HostsGet (Some ''mon1''),
       ProcessCheck ''mon1'' [''/usr/bin/ceph'', ''--cluster=ceph'', ''osd'', ''tree'', ''--format=json''],
       ConnExit ''mon1'',
       HostsGet (Some ''node4''),
       ProcessCheck ''node4'' [''/usr/bin/ceph-disk'', ''list''],
       PrintOsd ''node4'' ''/var/lib/ceph/osd/ceph-1''
         [(''id'', JInt 1), (''name'', JStr ''osd.1''), (''status'', JStr ''up''),
          (''reweight'', JFloat 1)]
         [(''device'', ''ceph''), (''active'', ''ok''), (''whoami'', ''1'')],
       ConnExit ''node4''])
   \<and> re_split ''/dev/sdb1 ceph data, active, cluster ceph, osd.1, journal /dev/sdb2'' ! 1 = ''ceph''
   \<and> printed (snd (osd_list
         (example_env '' /dev/sdb1 ceph data, active, cluster ceph, osd.1, journal /dev/sdb2'')
         (example_args ''node4'') [])) =
       [(''node4'', ''/var/lib/ceph/osd/ceph-1'',
         [(''id'', JInt 1), (''name'', JStr ''osd.1''), (''status'', JStr ''up''),
          (''reweight'', JFloat 1)],
         [(''device'', ''/dev/sdb1''), (''active'', ''ok''), (''whoami'', ''1'')])]"
  by (simp add: osd_list_def osd_list_host_def osd_list_entry_def print_osd_def
        interesting_files_def path_join_def re_split_def is_delim_def printed_def
        tree_dict_def tree_text_def stat_text_def stat_dict_def quoted_def example_defs run_defs)

text \<open>C9 as stated fails: the device of the record is not \<^verbatim>\<open>/dev/sdb\<close>.\<close>

theorem osd_list_device_counterexample:
  "printed (snd (osd_list
       (example_env ''/dev/sdb1 ceph data, active, cluster ceph, osd.1, journal /dev/sdb2'')
       (example_args ''node4'') [])) =
     [(''node4'', ''/var/lib/ceph/osd/ceph-1'',
       [(''id'', JInt 1), (''name'', JStr ''osd.1''), (''status'', JStr ''up''),
        (''reweight'', JFloat 1)],
       [(''device'', ''ceph''), (''active'', ''ok''), (''whoami'', ''1'')])]
   \<and> map_of [(''device'', ''ceph''), (''active'', ''ok''), (''whoami'', ''1'')] ''device''
       \<noteq> Some ''/dev/sdb''"
  by (simp add: osd_list_def osd_list_host_def osd_list_entry_def print_osd_def
        interesting_files_def path_join_def re_split_def is_delim_def printed_def
        tree_dict_def tree_text_def stat_text_def stat_dict_def quoted_def example_defs run_defs)

end
